theory Spec2Isabelle
  imports Main "HOL-Library.AList"
begin

section \<open>The lead capture form: data\<close>

text \<open>
  The embedding follows \<^verbatim>\<open>src/components/LeadCaptureForm.tsx\<close>. JavaScript strings are
  modelled as \<^typ>\<open>string\<close>. An object literal whose property order matters (the row sent
  to the database, the body sent to the email function) is an association list in the
  order the literal writes its properties.
\<close>

type_synonym row = "(string \<times> string) list"

text \<open>The state \<^verbatim>\<open>useState({ name: '', email: '', industry: '' })\<close>.\<close>

record form_data =
  name :: string
  email :: string
  industry :: string

text \<open>
  A lead is the three form fields plus \<^verbatim>\<open>submitted_at\<close> (the \<^verbatim>\<open>Lead\<close> interface quoted
  in the repository's README).
\<close>

record lead = form_data +
  submitted_at :: string

text \<open>\<^verbatim>\<open>ValidationError\<close>: the pair \<^verbatim>\<open>{field, message}\<close>.\<close>

record validation_error =
  field :: string
  message :: string

text \<open>An error object (a returned \<^verbatim>\<open>error\<close> or a thrown value); the code reads its message.\<close>

datatype js_error = JsError (error_message: string)

text \<open>An awaited call either resolves to a value or rejects, which \<^verbatim>\<open>await\<close> rethrows.\<close>

datatype 'a outcome = Returns 'a | Throws js_error

text \<open>
  The response \<^verbatim>\<open>{ data, error }\<close> of the insert; either property may be null. The
  response of \<^verbatim>\<open>functions.invoke\<close> is read only through its \<^verbatim>\<open>error\<close> property.
\<close>

record insert_result =
  data :: "row list option"
  error :: "js_error option"

type_synonym invoke_result = "js_error option"

text \<open>
  What one run of \<^verbatim>\<open>handleSubmit\<close> meets outside the component: the two gateways, each
  answering the request it is given, and the clock, read by \<^verbatim>\<open>new Date().toISOString()\<close>;
  \<open>now e k\<close> is what the \<open>k\<close>-th reading of the run returns (the source reads it twice).
\<close>

record env =
  insert_gateway :: "string \<Rightarrow> row list \<Rightarrow> insert_result outcome"
  invoke_gateway :: "string \<Rightarrow> row \<Rightarrow> invoke_result outcome"
  now :: "nat \<Rightarrow> string"

text \<open>
  The effects that leave the component, in the order they happen. A gateway call is two
  events: the request being issued and, when the \<^verbatim>\<open>await\<close> resumes, its settlement.
\<close>

datatype js_value = Rows "row list option" | Err js_error

datatype event =
    PreventDefault
  | InsertCall string "row list"
  | InsertSettled "insert_result outcome"
  | InvokeCall string row
  | InvokeSettled "invoke_result outcome"
  | ConsoleError string "js_value list"
  | ConsoleLog string "js_value list"
  | Alert string

section \<open>The session lead store\<close>

text \<open>
  Modelled from the spec: \<^verbatim>\<open>src/lib/lead-store.ts\<close> (\<^verbatim>\<open>useLeadStore\<close>) is not among the
  sources. Section 4.3 of the specification: \<^verbatim>\<open>addLead(lead)\<close> appends to an ordered
  sequence of leads (insertion order preserved, no deduplication), \<^verbatim>\<open>setSubmitted(bool)\<close>
  sets a single shared boolean. The store starts a session holding no lead, with the flag
  false.
\<close>

record lead_store =
  sessionLeads :: "lead list"
  submitted :: bool

definition initialStore :: lead_store where
  "initialStore = \<lparr>sessionLeads = [], submitted = False\<rparr>"

definition addLead :: "lead \<Rightarrow> lead_store \<Rightarrow> lead_store" where
  "addLead l s = s\<lparr>sessionLeads := sessionLeads s @ [l]\<rparr>"

definition setSubmitted :: "bool \<Rightarrow> lead_store \<Rightarrow> lead_store" where
  "setSubmitted b s = s\<lparr>submitted := b\<rparr>"

section \<open>The component\<close>

text \<open>
  The component's own state (\<open>formData\<close>, \<open>validationErrors\<close>), the store it shares with
  the rest of the page, and the trace of effects so far. \<open>formExtra\<close> holds the properties
  of the \<^verbatim>\<open>formData\<close> object other than the three declared ones: \<^verbatim>\<open>handleInputChange\<close>
  takes its key as a \<^verbatim>\<open>string\<close> and writes \<^verbatim>\<open>[field]: value\<close>, so a key that is none of
  the three adds a property.

  Each handler is modelled as running from the state of the latest render to its end:
  the closure values \<^verbatim>\<open>formData\<close> and \<^verbatim>\<open>validationErrors\<close> are the current state, and no
  other handler runs while \<^verbatim>\<open>handleSubmit\<close> is suspended at an \<^verbatim>\<open>await\<close>.
\<close>

record world =
  formData :: form_data
  formExtra :: row
  validationErrors :: "validation_error list"
  store :: lead_store
  trace :: "event list"

definition emit :: "event \<Rightarrow> world \<Rightarrow> world" where
  "emit ev w = w\<lparr>trace := trace w @ [ev]\<rparr>"

definition emptyForm :: form_data where
  "emptyForm = \<lparr>name = [], email = [], industry = []\<rparr>"

text \<open>
  The effect \<^verbatim>\<open>useEffect(() => { setSubmitted(false); }, [])\<close>, run at each mount of the
  component.
\<close>

definition resetOnMount :: "lead_store \<Rightarrow> lead_store" where
  "resetOnMount s = setSubmitted False s"

text \<open>A mount: the two \<^verbatim>\<open>useState\<close> initial values, then the effect.\<close>

definition mount :: "world \<Rightarrow> world" where
  "mount w = w\<lparr>formData := emptyForm, formExtra := [], validationErrors := [],
                store := resetOnMount (store w)\<rparr>"

text \<open>\<^verbatim>\<open>validationErrors.find(error => error.field === field)?.message\<close>\<close>

definition getFieldError :: "world \<Rightarrow> string \<Rightarrow> string option" where
  "getFieldError w f =
     map_option message (find (\<lambda>error. field error = f) (validationErrors w))"

text \<open>The row of the insert and the body of the invoke, as the object literals list them.\<close>

definition insertRow :: "form_data \<Rightarrow> string \<Rightarrow> row" where
  "insertRow fd t =
     [(''name'', name fd), (''email'', email fd), (''industry'', industry fd),
      (''submitted_at'', t)]"

definition invokeBody :: "form_data \<Rightarrow> row" where
  "invokeBody fd = [(''name'', name fd), (''email'', email fd), (''industry'', industry fd)]"

text \<open>
  The inner \<^verbatim>\<open>try\<close>/\<^verbatim>\<open>catch\<close> around the email call (lines 50 to 66): whatever the
  call does, control reaches the statement after it.
\<close>

definition sendConfirmation :: "env \<Rightarrow> world \<Rightarrow> world" where
  "sendConfirmation e w =
     (let body = invokeBody (formData w);
          w1 = emit (InvokeCall ''send-confirmation'' body) w;
          r = invoke_gateway e ''send-confirmation'' body;
          w2 = emit (InvokeSettled r) w1
      in case r of
           Throws emailError \<Rightarrow>
             emit (ConsoleError ''Error calling email function:'' [Err emailError]) w2
         | Returns (Some emailError) \<Rightarrow>
             emit (ConsoleError ''Error sending confirmation email:'' [Err emailError]) w2
         | Returns None \<Rightarrow>
             emit (ConsoleLog ''Confirmation email sent successfully'' []) w2)"

text \<open>The statements after the email call (lines 68 to 77); the clock is read again.\<close>

definition commitLead :: "env \<Rightarrow> world \<Rightarrow> world" where
  "commitLead e w =
     (let l = \<lparr>name = name (formData w), email = email (formData w),
               industry = industry (formData w), submitted_at = now e 1\<rparr>
      in w\<lparr>store := setSubmitted True (addLead l (store w)),
            formData := emptyForm, formExtra := []\<rparr>)"

text \<open>
  The body of the outer \<^verbatim>\<open>try\<close> (lines 28 to 77). The first component is the exception
  that leaves the block, if one does; the world is the one reached by then, since a throw
  undoes nothing.
\<close>

definition submitBody :: "env \<Rightarrow> world \<Rightarrow> js_error option \<times> world" where
  "submitBody e w =
     (let rows = [insertRow (formData w) (now e 0)];
          w1 = emit (InsertCall ''leads'' rows) w;
          r = insert_gateway e ''leads'' rows;
          w2 = emit (InsertSettled r) w1
      in case r of
           Throws ex \<Rightarrow> (Some ex, w2)
         | Returns res \<Rightarrow>
             (case error res of
                Some dbError \<Rightarrow>
                  (None,
                   emit (Alert (''Database Error: '' @ error_message dbError))
                     (emit (ConsoleError ''CRITICAL: Database insert failed:'' [Err dbError]) w2))
              | None \<Rightarrow>
                  (None,
                   commitLead e
                     (sendConfirmation e
                        (emit (ConsoleLog ''Lead saved to database successfully:''
                                 [Rows (data res)]) w2)))))"

text \<open>
  \<^verbatim>\<open>handleSubmit\<close>, with the validator \<^verbatim>\<open>validateLeadForm\<close> as a parameter. The outer
  \<^verbatim>\<open>catch\<close> logs the exception and the handler returns. Here the validator, the state
  setters and the store operations return normally; a later section lets them throw.
\<close>

definition handleSubmit ::
  "(form_data \<Rightarrow> validation_error list) \<Rightarrow> env \<Rightarrow> world \<Rightarrow> world" where
  "handleSubmit validate e w =
     (let w0 = emit PreventDefault w;
          errors = validate (formData w0);
          w1 = w0\<lparr>validationErrors := errors\<rparr>
      in if length errors = 0
         then (case submitBody e w1 of
                 (Some ex, w') \<Rightarrow>
                   emit (ConsoleError ''Unexpected error during form submission:'' [Err ex]) w'
               | (None, w') \<Rightarrow> w')
         else w1)"

text \<open>
  \<^verbatim>\<open>setFormData(prev => ({ ...prev, [field]: value }))\<close>: a declared key is overwritten,
  any other key is added to (or overwritten in) the object.
\<close>

definition setField :: "string \<Rightarrow> string \<Rightarrow> world \<Rightarrow> world" where
  "setField f v w =
     (if f = ''name'' then w\<lparr>formData := (formData w)\<lparr>name := v\<rparr>\<rparr>
      else if f = ''email'' then w\<lparr>formData := (formData w)\<lparr>email := v\<rparr>\<rparr>
      else if f = ''industry'' then w\<lparr>formData := (formData w)\<lparr>industry := v\<rparr>\<rparr>
      else w\<lparr>formExtra := AList.update f v (formExtra w)\<rparr>)"

definition handleInputChange :: "string \<Rightarrow> string \<Rightarrow> world \<Rightarrow> world" where
  "handleInputChange f v w =
     (let w1 = setField f v w
      in if list_ex (\<lambda>error. field error = f) (validationErrors w)
         then w1\<lparr>validationErrors := filter (\<lambda>error. field error \<noteq> f) (validationErrors w1)\<rparr>
         else w1)"

section \<open>The handler when the code it calls throws\<close>






section \<open>Sessions: a sequence of user actions\<close>

text \<open>
  What can happen to the component during a browser session: it is mounted, a key is
  pressed in a field, or the form is submitted (each submission meeting its own gateways
  and clock). A session starts from \<open>initialWorld\<close>.
\<close>

datatype action = Mount | InputChange string string | Submit env

definition step ::
  "(form_data \<Rightarrow> validation_error list) \<Rightarrow> world \<Rightarrow> action \<Rightarrow> world" where
  "step validate w a =
     (case a of
        Mount \<Rightarrow> mount w
      | InputChange f v \<Rightarrow> handleInputChange f v w
      | Submit e \<Rightarrow> handleSubmit validate e w)"

definition run ::
  "(form_data \<Rightarrow> validation_error list) \<Rightarrow> action list \<Rightarrow> world \<Rightarrow> world" where
  "run validate acts w = foldl (step validate) w acts"

definition initialWorld :: world where
  "initialWorld =
     \<lparr>formData = emptyForm, formExtra = [], validationErrors = [],
      store = initialStore, trace = []\<rparr>"

section \<open>Observations on traces\<close>

text \<open>The events a handler added to the trace, given the worlds before and after it.\<close>

definition newEvents :: "world \<Rightarrow> world \<Rightarrow> event list" where
  "newEvents w w' = drop (length (trace w)) (trace w')"

definition isInsertCall :: "event \<Rightarrow> bool" where
  "isInsertCall ev = (case ev of InsertCall tbl rows \<Rightarrow> True | _ \<Rightarrow> False)"

definition isInvokeCall :: "event \<Rightarrow> bool" where
  "isInvokeCall ev = (case ev of InvokeCall fn body \<Rightarrow> True | _ \<Rightarrow> False)"

definition isGatewayCall :: "event \<Rightarrow> bool" where
  "isGatewayCall ev = (isInsertCall ev \<or> isInvokeCall ev)"

text \<open>
  \<open>acceptedInsert r tr\<close>: somewhere in \<open>tr\<close> an insert of the single row \<open>r\<close> into
  \<^verbatim>\<open>leads\<close> was issued and the gateway answered it with no error.
\<close>

fun acceptedInsert :: "row \<Rightarrow> event list \<Rightarrow> bool" where
  "acceptedInsert r [] = False"
| "acceptedInsert r (ev # evs) =
     ((case ev of
         InsertCall tbl rows \<Rightarrow>
           (case evs of
              InsertSettled (Returns res) # rest \<Rightarrow>
                tbl = ''leads'' \<and> rows = [r] \<and> error res = None
            | _ \<Rightarrow> False)
       | _ \<Rightarrow> False)
      \<or> acceptedInsert r evs)"

text \<open>The row a lead would be if all four of its fields had been sent.\<close>

definition leadRow :: "lead \<Rightarrow> row" where
  "leadRow l =
     [(''name'', name l), (''email'', email l), (''industry'', industry l),
      (''submitted_at'', submitted_at l)]"

text \<open>
  \<open>contactRow l r\<close>: the row \<open>r\<close> has the four properties of an inserted row and agrees
  with the lead \<open>l\<close> on name, email and industry.
\<close>

definition contactRow :: "lead \<Rightarrow> row \<Rightarrow> bool" where
  "contactRow l r =
     (map fst r = [''name'', ''email'', ''industry'', ''submitted_at''] \<and>
      take 3 (map snd r) = [name l, email l, industry l])"

section \<open>Invariants of a session\<close>

text \<open>
  The rows of the accepted inserts of a trace, in order: the rows of every insert into
  \<^verbatim>\<open>leads\<close> whose settlement, the next event, is a response with no error.
\<close>

fun acceptedRows :: "event list \<Rightarrow> row list" where
  "acceptedRows [] = []"
| "acceptedRows (ev # evs) =
     (case ev of
        InsertCall tbl rows \<Rightarrow>
          (case evs of
             InsertSettled (Returns res) # rest \<Rightarrow>
               (if tbl = ''leads'' \<and> error res = None then rows else [])
           | _ \<Rightarrow> [])
      | _ \<Rightarrow> [])
     @ acceptedRows evs"

text \<open>
  \<open>paired validate w\<close>: the leads of the store and the accepted rows of the trace
  correspond one to one, in order, each lead agreeing with its row on name, email and
  industry; and every lead passes the validator.
\<close>

definition paired :: "(form_data \<Rightarrow> validation_error list) \<Rightarrow> world \<Rightarrow> bool" where
  "paired validate w =
     (list_all2 contactRow (sessionLeads (store w)) (acceptedRows (trace w)) \<and>
      list_all (\<lambda>l. validate \<lparr>name = name l, email = email l, industry = industry l\<rparr> = [])
        (sessionLeads (store w)))"

text \<open>\<open>flagHasLead s\<close>: if the submitted flag is set, the store holds a lead.\<close>

definition flagHasLead :: "lead_store \<Rightarrow> bool" where
  "flagHasLead s = (if submitted s then sessionLeads s \<noteq> [] else True)"

section \<open>The validator\<close>

text \<open>
  Modelled from the spec: \<^verbatim>\<open>src/lib/validation.ts\<close> (\<^verbatim>\<open>validateLeadForm\<close>) is not among
  the sources. Section 4.1 of the specification: a name error when the name is empty or
  whitespace-only; an email error when the email is empty and another when it is
  non-empty but not of the shape local@domain.tld (non-whitespace, non-@ characters, one
  @, a domain with at least one dot); an industry error when the industry is empty (the
  README quotes that test as \<^verbatim>\<open>!data.industry.trim()\<close>); errors in the order name, email,
  industry. The specification fixes the texts of the name and industry messages only;
  the two email texts below stand for whatever the source says. A \<^typ>\<open>char\<close> stands for
  a character with a code below 256; of these, JavaScript's \<^verbatim>\<open>trim()\<close> and \<^verbatim>\<open>\s\<close> take as
  whitespace the tab, line feed, vertical tab, form feed, carriage return, space and the
  no-break space U+00A0. Characters with higher codes are outside the model. The theorems
  about the component hold for every validator; this one is used where a concrete one is
  needed.
\<close>

definition isWhitespace :: "char \<Rightarrow> bool" where
  "isWhitespace c =
     (c = CHR '' '' \<or> c = CHR 0x09 \<or> c = CHR 0x0A \<or> c = CHR 0x0B \<or> c = CHR 0x0C \<or> c = CHR 0x0D \<or>
      c = CHR 0xA0)"

definition trim :: "string \<Rightarrow> string" where
  "trim s = rev (dropWhile isWhitespace (rev (dropWhile isWhitespace s)))"

definition emailShape :: "string \<Rightarrow> bool" where
  "emailShape s =
     (let local = takeWhile (\<lambda>c. c \<noteq> CHR ''@'') s;
          rest = dropWhile (\<lambda>c. c \<noteq> CHR ''@'') s;
          domain = tl rest
      in local \<noteq> [] \<and> rest \<noteq> [] \<and> \<not> list_ex isWhitespace s \<and>
         CHR ''@'' \<notin> set domain \<and> CHR ''.'' \<in> set (butlast (tl domain)))"

definition validateLeadForm :: "form_data \<Rightarrow> validation_error list" where
  "validateLeadForm d =
     (if trim (name d) = [] then [\<lparr>field = ''name'', message = ''Name is required''\<rparr>] else []) @
     (if email d = [] then [\<lparr>field = ''email'', message = ''Email is required''\<rparr>]
      else if \<not> emailShape (email d)
      then [\<lparr>field = ''email'', message = ''Please enter a valid email address''\<rparr>]
      else []) @
     (if trim (industry d) = []
      then [\<lparr>field = ''industry'', message = ''Please select your industry''\<rparr>] else [])"

section \<open>Concrete submissions\<close>

text \<open>The form as typed in, and the gateways and clocks of five submissions.\<close>

definition annForm :: form_data where
  "annForm = \<lparr>name = ''Ann'', email = ''a@b.com'', industry = ''technology''\<rparr>"

definition annWorld :: world where
  "annWorld = initialWorld\<lparr>formData := annForm\<rparr>"

definition clock :: "nat \<Rightarrow> string" where
  "clock k = (if k = 0 then ''2025-07-10T13:51:08.000Z'' else ''2025-07-10T13:51:08.250Z'')"

definition envOk :: env where
  "envOk =
     \<lparr>insert_gateway = (\<lambda>tbl rows. Returns \<lparr>data = Some rows, error = None\<rparr>),
      invoke_gateway = (\<lambda>fn body. Returns None),
      now = clock\<rparr>"

definition envDbError :: env where
  "envDbError =
     envOk\<lparr>insert_gateway :=
       (\<lambda>tbl rows. Returns \<lparr>data = None, error = Some (JsError ''permission denied'')\<rparr>)\<rparr>"

definition envInsertThrows :: env where
  "envInsertThrows = envOk\<lparr>insert_gateway := (\<lambda>tbl rows. Throws (JsError ''Failed to fetch''))\<rparr>"

definition envEmailError :: env where
  "envEmailError =
     envOk\<lparr>invoke_gateway := (\<lambda>fn body. Returns (Some (JsError ''Function returned 500'')))\<rparr>"

definition envEmailThrows :: env where
  "envEmailThrows = envOk\<lparr>invoke_gateway := (\<lambda>fn body. Throws (JsError ''Failed to fetch''))\<rparr>"



text \<open>A whole session: mount, type the three fields, submit, both gateways succeeding.\<close>

definition annSession :: "action list" where
  "annSession =
     [Mount, InputChange ''name'' ''Ann'', InputChange ''email'' ''a@b.com'',
      InputChange ''industry'' ''technology'', Submit envOk]"

section \<open>The paths of one submission\<close>

text \<open>
  \<^verbatim>\<open>handleSubmit\<close> has four ways through: the validator reports errors; the insert
  throws; the insert returns an error; the insert is accepted, and then the email call
  goes one of three ways. Each lemma gives the world reached.
\<close>

lemma handleSubmit_invalid:
  assumes "validate (formData w) \<noteq> []"
  shows "handleSubmit validate e w =
           w\<lparr>validationErrors := validate (formData w), trace := trace w @ [PreventDefault]\<rparr>"
  using assms by (simp add: handleSubmit_def emit_def Let_def)

lemma handleSubmit_insert_throws:
  assumes "validate (formData w) = []"
    and "insert_gateway e ''leads'' [insertRow (formData w) (now e 0)] = Throws ex"
  shows "handleSubmit validate e w =
           w\<lparr>validationErrors := [],
             trace := trace w @
               [PreventDefault,
                InsertCall ''leads'' [insertRow (formData w) (now e 0)],
                InsertSettled (Throws ex),
                ConsoleError ''Unexpected error during form submission:'' [Err ex]]\<rparr>"
  using assms by (simp add: handleSubmit_def submitBody_def emit_def Let_def)

lemma handleSubmit_insert_error:
  assumes "validate (formData w) = []"
    and "insert_gateway e ''leads'' [insertRow (formData w) (now e 0)] = Returns res"
    and "error res = Some dbError"
  shows "handleSubmit validate e w =
           w\<lparr>validationErrors := [],
             trace := trace w @
               [PreventDefault,
                InsertCall ''leads'' [insertRow (formData w) (now e 0)],
                InsertSettled (Returns res),
                ConsoleError ''CRITICAL: Database insert failed:'' [Err dbError],
                Alert (''Database Error: '' @ error_message dbError)]\<rparr>"
  using assms by (simp add: handleSubmit_def submitBody_def emit_def Let_def)

lemma handleSubmit_saved:
  assumes "validate (formData w) = []"
    and "insert_gateway e ''leads'' [insertRow (formData w) (now e 0)] = Returns res"
    and "error res = None"
  shows "handleSubmit validate e w =
           w\<lparr>formData := emptyForm, formExtra := [], validationErrors := [],
             store := (store w)\<lparr>sessionLeads := sessionLeads (store w) @
                         [\<lparr>name = name (formData w), email = email (formData w),
                           industry = industry (formData w), submitted_at = now e 1\<rparr>],
                       submitted := True\<rparr>,
             trace := trace w @
               [PreventDefault,
                InsertCall ''leads'' [insertRow (formData w) (now e 0)],
                InsertSettled (Returns res),
                ConsoleLog ''Lead saved to database successfully:'' [Rows (data res)],
                InvokeCall ''send-confirmation'' (invokeBody (formData w)),
                InvokeSettled (invoke_gateway e ''send-confirmation'' (invokeBody (formData w))),
                (case invoke_gateway e ''send-confirmation'' (invokeBody (formData w)) of
                   Throws emailError \<Rightarrow>
                     ConsoleError ''Error calling email function:'' [Err emailError]
                 | Returns (Some emailError) \<Rightarrow>
                     ConsoleError ''Error sending confirmation email:'' [Err emailError]
                 | Returns None \<Rightarrow> ConsoleLog ''Confirmation email sent successfully'' [])]\<rparr>"
  using assms
  by (simp add: handleSubmit_def submitBody_def sendConfirmation_def commitLead_def
      addLead_def setSubmitted_def emit_def Let_def split: outcome.split option.split)

text \<open>
  When the store operations and the state setters return normally, the only exception
  that leaves the body of the outer \<^verbatim>\<open>try\<close> is one thrown by the insert: a throw of the
  email call is caught by the inner \<^verbatim>\<open>catch\<close>.
\<close>

lemma submitBody_throws_iff:
  "fst (submitBody e w) = Some ex \<longleftrightarrow>
   insert_gateway e ''leads'' [insertRow (formData w) (now e 0)] = Throws ex"
  by (simp add: submitBody_def Let_def split: outcome.split option.split)

text \<open>\<^verbatim>\<open>setValidationErrors(errors)\<close> is the only write to the error list in the handler.\<close>

lemma handleSubmit_validationErrors:
  "validationErrors (handleSubmit validate e w) = validate (formData w)"
  by (simp add: handleSubmit_def submitBody_def sendConfirmation_def commitLead_def emit_def
      Let_def split: outcome.split option.split)

text \<open>The events of one submission, all paths in one equation.\<close>

lemma handleSubmit_newEvents:
  "newEvents w (handleSubmit validate e w) =
     (if validate (formData w) \<noteq> [] then [PreventDefault]
      else PreventDefault # InsertCall ''leads'' [insertRow (formData w) (now e 0)] #
        (case insert_gateway e ''leads'' [insertRow (formData w) (now e 0)] of
           Throws ex \<Rightarrow>
             [InsertSettled (Throws ex),
              ConsoleError ''Unexpected error during form submission:'' [Err ex]]
         | Returns res \<Rightarrow>
             (case error res of
                Some dbError \<Rightarrow>
                  [InsertSettled (Returns res),
                   ConsoleError ''CRITICAL: Database insert failed:'' [Err dbError],
                   Alert (''Database Error: '' @ error_message dbError)]
              | None \<Rightarrow>
                  [InsertSettled (Returns res),
                   ConsoleLog ''Lead saved to database successfully:'' [Rows (data res)],
                   InvokeCall ''send-confirmation'' (invokeBody (formData w)),
                   InvokeSettled
                     (invoke_gateway e ''send-confirmation'' (invokeBody (formData w))),
                   (case invoke_gateway e ''send-confirmation'' (invokeBody (formData w)) of
                      Throws emailError \<Rightarrow>
                        ConsoleError ''Error calling email function:'' [Err emailError]
                    | Returns (Some emailError) \<Rightarrow>
                        ConsoleError ''Error sending confirmation email:'' [Err emailError]
                    | Returns None \<Rightarrow>
                        ConsoleLog ''Confirmation email sent successfully'' [])])))"
  by (simp add: newEvents_def handleSubmit_def submitBody_def sendConfirmation_def
      commitLead_def emit_def Let_def split: outcome.split option.split)

section \<open>Invariants are kept\<close>

text \<open>
  A submission starts with the \<^verbatim>\<open>preventDefault\<close> event, so its events pair up among
  themselves: the accepted rows of the longer trace are those of the old one followed by
  those of the submission.
\<close>

lemma acceptedRows_append:
  "acceptedRows (tr @ PreventDefault # evs) = acceptedRows tr @ acceptedRows (PreventDefault # evs)"
proof (induction tr)
  case Nil
  show ?case by simp
next
  case (Cons ev tr')
  show ?case
  proof (cases tr')
    case Nil
    then show ?thesis by (cases ev) simp_all
  next
    case (Cons ev' rest)
    with Cons.IH show ?thesis by (cases ev) simp_all
  qed
qed

lemma acceptedRows_newEvents:
  "acceptedRows (newEvents w (handleSubmit validate e w)) =
     (if validate (formData w) = [] then
        (case insert_gateway e ''leads'' [insertRow (formData w) (now e 0)] of
           Throws ex \<Rightarrow> []
         | Returns res \<Rightarrow>
             (case error res of
                Some dbError \<Rightarrow> []
              | None \<Rightarrow> [insertRow (formData w) (now e 0)]))
      else [])"
  by (simp add: handleSubmit_newEvents split: outcome.split option.split)

lemma handleSubmit_trace:
  "trace (handleSubmit validate e w) = trace w @ newEvents w (handleSubmit validate e w)"
  by (simp add: newEvents_def handleSubmit_def submitBody_def sendConfirmation_def
      commitLead_def emit_def Let_def split: outcome.split option.split)

lemma newEvents_head:
  "\<exists>evs. newEvents w (handleSubmit validate e w) = PreventDefault # evs"
  by (simp add: handleSubmit_newEvents)

lemma acceptedRows_handleSubmit:
  "acceptedRows (trace (handleSubmit validate e w)) =
     acceptedRows (trace w) @ acceptedRows (newEvents w (handleSubmit validate e w))"
proof -
  obtain evs where "newEvents w (handleSubmit validate e w) = PreventDefault # evs"
    using newEvents_head by blast
  then show ?thesis
    by (simp add: handleSubmit_trace [of validate e w] acceptedRows_append del: acceptedRows.simps)
qed

text \<open>What one submission appends to the leads of the store.\<close>

lemma sessionLeads_handleSubmit:
  "sessionLeads (store (handleSubmit validate e w)) =
     sessionLeads (store w) @
     (if validate (formData w) = [] then
        (case insert_gateway e ''leads'' [insertRow (formData w) (now e 0)] of
           Throws ex \<Rightarrow> []
         | Returns res \<Rightarrow>
             (case error res of
                Some dbError \<Rightarrow> []
              | None \<Rightarrow>
                  [\<lparr>name = name (formData w), email = email (formData w),
                    industry = industry (formData w), submitted_at = now e 1\<rparr>]))
      else [])"
  by (simp add: handleSubmit_def submitBody_def sendConfirmation_def commitLead_def
      addLead_def setSubmitted_def emit_def Let_def split: outcome.split option.split)

text \<open>Each action keeps \<open>paired\<close>; so does a session.\<close>

lemma paired_handleSubmit:
  assumes "paired validate w"
  shows "paired validate (handleSubmit validate e w)"
proof -
  have fd: "\<lparr>name = name (formData w), email = email (formData w),
      industry = industry (formData w)\<rparr> = formData w"
    by simp
  show ?thesis
    using assms
    by (auto simp add: paired_def acceptedRows_handleSubmit acceptedRows_newEvents
        sessionLeads_handleSubmit list_all2_appendI contactRow_def insertRow_def fd
        simp del: acceptedRows.simps split: outcome.split option.split)
qed

lemma paired_step: "paired validate w \<Longrightarrow> paired validate (step validate w a)"
  by (cases a)
    (simp_all add: step_def paired_handleSubmit,
     simp_all add: paired_def mount_def resetOnMount_def setSubmitted_def
       handleInputChange_def setField_def Let_def)

lemma paired_run: "paired validate w \<Longrightarrow> paired validate (run validate acts w)"
  unfolding run_def by (induction acts arbitrary: w) (simp_all add: paired_step)

lemma paired_initialWorld: "paired validate initialWorld"
  by (simp add: paired_def initialWorld_def initialStore_def)

text \<open>Each action keeps \<open>flagHasLead\<close>; the flag rises only in a step that appends a lead.\<close>

lemma flagHasLead_handleSubmit:
  "flagHasLead (store w) \<Longrightarrow> flagHasLead (store (handleSubmit validate e w))"
  by (simp add: flagHasLead_def handleSubmit_def submitBody_def sendConfirmation_def
      commitLead_def addLead_def setSubmitted_def emit_def Let_def
      split: outcome.split option.split if_splits)

lemma flagHasLead_step:
  "flagHasLead (store w) \<Longrightarrow> flagHasLead (store (step validate w a))"
  by (cases a)
    (simp_all add: step_def flagHasLead_handleSubmit,
     simp_all add: flagHasLead_def mount_def resetOnMount_def setSubmitted_def
       handleInputChange_def setField_def Let_def)

lemma flagHasLead_run:
  "flagHasLead (store w) \<Longrightarrow> flagHasLead (store (run validate acts w))"
  unfolding run_def by (induction acts arbitrary: w) (simp_all add: flagHasLead_step)

lemma flag_rises_with_lead:
  assumes "\<not> submitted (store w)" and "submitted (store (step validate w a))"
  shows "\<exists>e l. a = Submit e \<and>
           sessionLeads (store (step validate w a)) = sessionLeads (store w) @ [l]"
  using assms
  by (cases a)
    (auto simp add: step_def mount_def resetOnMount_def setSubmitted_def addLead_def
      handleInputChange_def setField_def handleSubmit_def submitBody_def sendConfirmation_def
      commitLead_def emit_def Let_def split: outcome.splits option.splits if_splits)

section \<open>The paths of a submission whose callees throw\<close>








section \<open>The concrete submissions, evaluated\<close>

text \<open>The validator accepts the input the specification gives as acceptable.\<close>

lemma validateLeadForm_annForm: "validateLeadForm annForm = []"
  by (simp add: validateLeadForm_def annForm_def trim_def emailShape_def isWhitespace_def)

lemma annWorld_valid: "validateLeadForm (formData annWorld) = []"
  by (simp add: annWorld_def validateLeadForm_annForm)

lemmas fixture_defs =
  annWorld_def annForm_def initialWorld_def initialStore_def emptyForm_def clock_def
  envOk_def envDbError_def envInsertThrows_def envEmailError_def envEmailThrows_def

lemma rejected_errors:
  "validationErrors (handleSubmit validateLeadForm envOk initialWorld) =
     [\<lparr>field = ''name'', message = ''Name is required''\<rparr>,
      \<lparr>field = ''email'', message = ''Email is required''\<rparr>,
      \<lparr>field = ''industry'', message = ''Please select your industry''\<rparr>]"
  by (simp add: handleSubmit_validationErrors initialWorld_def emptyForm_def
      validateLeadForm_def trim_def)

lemma annSession_run:
  "run validateLeadForm annSession initialWorld =
     \<lparr>formData = emptyForm, formExtra = [], validationErrors = [],
      store = \<lparr>sessionLeads =
                 [\<lparr>name = ''Ann'', email = ''a@b.com'', industry = ''technology'',
                   submitted_at = ''2025-07-10T13:51:08.250Z''\<rparr>],
               submitted = True\<rparr>,
      trace =
        [PreventDefault,
         InsertCall ''leads''
           [[(''name'', ''Ann''), (''email'', ''a@b.com''), (''industry'', ''technology''),
             (''submitted_at'', ''2025-07-10T13:51:08.000Z'')]],
         InsertSettled
           (Returns \<lparr>data = Some [[(''name'', ''Ann''), (''email'', ''a@b.com''),
                                  (''industry'', ''technology''),
                                  (''submitted_at'', ''2025-07-10T13:51:08.000Z'')]],
                    error = None\<rparr>),
         ConsoleLog ''Lead saved to database successfully:''
           [Rows (Some [[(''name'', ''Ann''), (''email'', ''a@b.com''),
                         (''industry'', ''technology''),
                         (''submitted_at'', ''2025-07-10T13:51:08.000Z'')]])],
         InvokeCall ''send-confirmation''
           [(''name'', ''Ann''), (''email'', ''a@b.com''), (''industry'', ''technology'')],
         InvokeSettled (Returns None),
         ConsoleLog ''Confirmation email sent successfully'' []]\<rparr>"
proof -
  have typed: "foldl (step validateLeadForm) initialWorld
      [Mount, InputChange ''name'' ''Ann'', InputChange ''email'' ''a@b.com'',
       InputChange ''industry'' ''technology''] = annWorld"
    by (simp add: step_def mount_def resetOnMount_def setSubmitted_def handleInputChange_def
        setField_def Let_def fixture_defs)
  have ins: "insert_gateway envOk ''leads'' [insertRow (formData annWorld) (now envOk 0)] =
      Returns \<lparr>data = Some [insertRow (formData annWorld) (now envOk 0)], error = None\<rparr>"
    by (simp add: envOk_def)
  have "run validateLeadForm annSession initialWorld =
      handleSubmit validateLeadForm envOk annWorld"
    using typed by (simp add: run_def annSession_def step_def)
  also have "\<dots> = \<lparr>formData = emptyForm, formExtra = [], validationErrors = [],
      store = \<lparr>sessionLeads =
                 [\<lparr>name = ''Ann'', email = ''a@b.com'', industry = ''technology'',
                   submitted_at = ''2025-07-10T13:51:08.250Z''\<rparr>],
               submitted = True\<rparr>,
      trace =
        [PreventDefault,
         InsertCall ''leads''
           [[(''name'', ''Ann''), (''email'', ''a@b.com''), (''industry'', ''technology''),
             (''submitted_at'', ''2025-07-10T13:51:08.000Z'')]],
         InsertSettled
           (Returns \<lparr>data = Some [[(''name'', ''Ann''), (''email'', ''a@b.com''),
                                  (''industry'', ''technology''),
                                  (''submitted_at'', ''2025-07-10T13:51:08.000Z'')]],
                    error = None\<rparr>),
         ConsoleLog ''Lead saved to database successfully:''
           [Rows (Some [[(''name'', ''Ann''), (''email'', ''a@b.com''),
                         (''industry'', ''technology''),
                         (''submitted_at'', ''2025-07-10T13:51:08.000Z'')]])],
         InvokeCall ''send-confirmation''
           [(''name'', ''Ann''), (''email'', ''a@b.com''), (''industry'', ''technology'')],
         InvokeSettled (Returns None),
         ConsoleLog ''Confirmation email sent successfully'' []]\<rparr>"
    by (subst handleSubmit_saved [where validate = validateLeadForm, OF annWorld_valid ins])
      (simp_all add: insertRow_def invokeBody_def fixture_defs)
  finally show ?thesis .
qed

section \<open>The claims\<close>

text \<open>
  C1. When validation passes and the insert returns an error, the email function is not
  invoked, the store (its leads and its submitted flag) is as before, the form keeps the
  values entered, and the handler stops after logging the error and showing it in an
  alert.
\<close>

theorem persist_failure_halts:
  assumes "validate (formData w) = []"
    and "insert_gateway e ''leads''
           [[(''name'', name (formData w)), (''email'', email (formData w)),
             (''industry'', industry (formData w)), (''submitted_at'', now e 0)]] = Returns res"
    and "error res = Some dbError"
  shows "\<not> list_ex isInvokeCall (newEvents w (handleSubmit validate e w)) \<and>
         store (handleSubmit validate e w) = store w \<and>
         submitted (store (handleSubmit validate e w)) = submitted (store w) \<and>
         formData (handleSubmit validate e w) = formData w \<and>
         formExtra (handleSubmit validate e w) = formExtra w \<and>
         newEvents w (handleSubmit validate e w) =
           [PreventDefault,
            InsertCall ''leads''
              [[(''name'', name (formData w)), (''email'', email (formData w)),
                (''industry'', industry (formData w)), (''submitted_at'', now e 0)]],
            InsertSettled (Returns res),
            ConsoleError ''CRITICAL: Database insert failed:'' [Err dbError],
            Alert (''Database Error: '' @ error_message dbError)]"
proof -
  have ins: "insert_gateway e ''leads'' [insertRow (formData w) (now e 0)] = Returns res"
    using assms(2) by (simp add: insertRow_def)
  note eq = handleSubmit_insert_error [where validate = validate and dbError = dbError, OF assms(1) ins assms(3)]
  show ?thesis
    by (simp add: eq newEvents_def isInvokeCall_def insertRow_def)
qed

text \<open>Ann's submission, the gateway answering the insert with ``permission denied''.\<close>

theorem persist_failure_halts_witness:
  "validateLeadForm (formData annWorld) = [] \<and>
   insert_gateway envDbError ''leads''
     [[(''name'', ''Ann''), (''email'', ''a@b.com''), (''industry'', ''technology''),
       (''submitted_at'', ''2025-07-10T13:51:08.000Z'')]] =
     Returns \<lparr>data = None, error = Some (JsError ''permission denied'')\<rparr> \<and>
   \<not> list_ex isInvokeCall (newEvents annWorld (handleSubmit validateLeadForm envDbError annWorld)) \<and>
   store (handleSubmit validateLeadForm envDbError annWorld) = initialStore \<and>
   submitted (store (handleSubmit validateLeadForm envDbError annWorld)) = False \<and>
   formData (handleSubmit validateLeadForm envDbError annWorld) = annForm \<and>
   newEvents annWorld (handleSubmit validateLeadForm envDbError annWorld) =
     [PreventDefault,
      InsertCall ''leads''
        [[(''name'', ''Ann''), (''email'', ''a@b.com''), (''industry'', ''technology''),
          (''submitted_at'', ''2025-07-10T13:51:08.000Z'')]],
      InsertSettled (Returns \<lparr>data = None, error = Some (JsError ''permission denied'')\<rparr>),
      ConsoleError ''CRITICAL: Database insert failed:'' [Err (JsError ''permission denied'')],
      Alert ''Database Error: permission denied'']"
proof -
  have valid: "validateLeadForm (formData annWorld) = []"
    by (simp add: annWorld_def validateLeadForm_annForm)
  have ins: "insert_gateway envDbError ''leads''
      [[(''name'', name (formData annWorld)), (''email'', email (formData annWorld)),
        (''industry'', industry (formData annWorld)), (''submitted_at'', now envDbError 0)]] =
      Returns \<lparr>data = None, error = Some (JsError ''permission denied'')\<rparr>"
    by (simp add: envDbError_def)
  have err: "error \<lparr>data = None, error = Some (JsError ''permission denied'')\<rparr> =
      Some (JsError ''permission denied'')"
    by simp
  show ?thesis
    using persist_failure_halts [where validate = validateLeadForm and w = annWorld
        and e = envDbError, OF valid ins err] valid
    by (simp add: annWorld_def annForm_def initialWorld_def initialStore_def envDbError_def
        envOk_def clock_def isInvokeCall_def)
qed

text \<open>
  C2. Once the insert is accepted the commit happens whatever the email call does: the
  store gains the lead and the submitted flag becomes true. An error returned by the
  email call, or an exception thrown by it, is logged to the console as the last event of
  the submission; no alert is shown, the outer handler logs nothing, and the only gateway
  calls are the one insert and the one invoke, so nothing undoes the insert.
\<close>

theorem commit_despite_notification:
  assumes "validate (formData w) = []"
    and "insert_gateway e ''leads''
           [[(''name'', name (formData w)), (''email'', email (formData w)),
             (''industry'', industry (formData w)), (''submitted_at'', now e 0)]] = Returns res"
    and "error res = None"
  shows "sessionLeads (store (handleSubmit validate e w)) =
           sessionLeads (store w) @
             [\<lparr>name = name (formData w), email = email (formData w),
               industry = industry (formData w), submitted_at = now e 1\<rparr>] \<and>
         submitted (store (handleSubmit validate e w)) = True \<and>
         (\<forall>ex. invoke_gateway e ''send-confirmation''
                 [(''name'', name (formData w)), (''email'', email (formData w)),
                  (''industry'', industry (formData w))] = Throws ex \<longrightarrow>
               last (newEvents w (handleSubmit validate e w)) =
                 ConsoleError ''Error calling email function:'' [Err ex]) \<and>
         (\<forall>er. invoke_gateway e ''send-confirmation''
                 [(''name'', name (formData w)), (''email'', email (formData w)),
                  (''industry'', industry (formData w))] = Returns (Some er) \<longrightarrow>
               last (newEvents w (handleSubmit validate e w)) =
                 ConsoleError ''Error sending confirmation email:'' [Err er]) \<and>
         filter isGatewayCall (newEvents w (handleSubmit validate e w)) =
           [InsertCall ''leads''
              [[(''name'', name (formData w)), (''email'', email (formData w)),
                (''industry'', industry (formData w)), (''submitted_at'', now e 0)]],
            InvokeCall ''send-confirmation''
              [(''name'', name (formData w)), (''email'', email (formData w)),
               (''industry'', industry (formData w))]] \<and>
         (\<forall>m. Alert m \<notin> set (newEvents w (handleSubmit validate e w))) \<and>
         (\<forall>vs. ConsoleError ''Unexpected error during form submission:'' vs
               \<notin> set (newEvents w (handleSubmit validate e w)))"
proof -
  have ins: "insert_gateway e ''leads'' [insertRow (formData w) (now e 0)] = Returns res"
    using assms(2) by (simp add: insertRow_def)
  note eq = handleSubmit_saved [where validate = validate, OF assms(1) ins assms(3)]
  show ?thesis
    by (simp add: eq newEvents_def isGatewayCall_def isInsertCall_def isInvokeCall_def
        insertRow_def invokeBody_def split: outcome.split option.split)
qed

text \<open>
  Ann's submission with the insert accepted, once with the email call throwing and once
  with it returning an error.
\<close>

theorem commit_despite_notification_witness:
  "validateLeadForm (formData annWorld) = [] \<and>
   insert_gateway envEmailThrows ''leads''
     [[(''name'', ''Ann''), (''email'', ''a@b.com''), (''industry'', ''technology''),
       (''submitted_at'', ''2025-07-10T13:51:08.000Z'')]] =
     Returns \<lparr>data = Some [[(''name'', ''Ann''), (''email'', ''a@b.com''),
                            (''industry'', ''technology''),
                            (''submitted_at'', ''2025-07-10T13:51:08.000Z'')]],
              error = None\<rparr> \<and>
   invoke_gateway envEmailThrows ''send-confirmation''
     [(''name'', ''Ann''), (''email'', ''a@b.com''), (''industry'', ''technology'')] =
     Throws (JsError ''Failed to fetch'') \<and>
   sessionLeads (store (handleSubmit validateLeadForm envEmailThrows annWorld)) =
     [\<lparr>name = ''Ann'', email = ''a@b.com'', industry = ''technology'',
       submitted_at = ''2025-07-10T13:51:08.250Z''\<rparr>] \<and>
   submitted (store (handleSubmit validateLeadForm envEmailThrows annWorld)) = True \<and>
   last (newEvents annWorld (handleSubmit validateLeadForm envEmailThrows annWorld)) =
     ConsoleError ''Error calling email function:'' [Err (JsError ''Failed to fetch'')] \<and>
   invoke_gateway envEmailError ''send-confirmation''
     [(''name'', ''Ann''), (''email'', ''a@b.com''), (''industry'', ''technology'')] =
     Returns (Some (JsError ''Function returned 500'')) \<and>
   sessionLeads (store (handleSubmit validateLeadForm envEmailError annWorld)) =
     [\<lparr>name = ''Ann'', email = ''a@b.com'', industry = ''technology'',
       submitted_at = ''2025-07-10T13:51:08.250Z''\<rparr>] \<and>
   submitted (store (handleSubmit validateLeadForm envEmailError annWorld)) = True \<and>
   last (newEvents annWorld (handleSubmit validateLeadForm envEmailError annWorld)) =
     ConsoleError ''Error sending confirmation email:'' [Err (JsError ''Function returned 500'')]"
proof -
  let ?res = "\<lparr>data = Some [[(''name'', ''Ann''), (''email'', ''a@b.com''),
      (''industry'', ''technology''), (''submitted_at'', ''2025-07-10T13:51:08.000Z'')]],
    error = None\<rparr>"
  have ins_throws: "insert_gateway envEmailThrows ''leads''
      [[(''name'', name (formData annWorld)), (''email'', email (formData annWorld)),
        (''industry'', industry (formData annWorld)), (''submitted_at'', now envEmailThrows 0)]] =
      Returns ?res"
    by (simp add: fixture_defs)
  have ins_error: "insert_gateway envEmailError ''leads''
      [[(''name'', name (formData annWorld)), (''email'', email (formData annWorld)),
        (''industry'', industry (formData annWorld)), (''submitted_at'', now envEmailError 0)]] =
      Returns ?res"
    by (simp add: fixture_defs)
  have ok: "error ?res = None"
    by simp
  have thrown: "insert_gateway envEmailThrows ''leads''
       [[(''name'', ''Ann''), (''email'', ''a@b.com''), (''industry'', ''technology''),
         (''submitted_at'', ''2025-07-10T13:51:08.000Z'')]] = Returns ?res \<and>
     invoke_gateway envEmailThrows ''send-confirmation''
       [(''name'', ''Ann''), (''email'', ''a@b.com''), (''industry'', ''technology'')] =
       Throws (JsError ''Failed to fetch'') \<and>
     sessionLeads (store (handleSubmit validateLeadForm envEmailThrows annWorld)) =
       [\<lparr>name = ''Ann'', email = ''a@b.com'', industry = ''technology'',
         submitted_at = ''2025-07-10T13:51:08.250Z''\<rparr>] \<and>
     submitted (store (handleSubmit validateLeadForm envEmailThrows annWorld)) = True \<and>
     last (newEvents annWorld (handleSubmit validateLeadForm envEmailThrows annWorld)) =
       ConsoleError ''Error calling email function:'' [Err (JsError ''Failed to fetch'')]"
    using commit_despite_notification [where validate = validateLeadForm and w = annWorld
        and e = envEmailThrows, OF annWorld_valid ins_throws ok]
    by (simp add: fixture_defs)
  have returned: "invoke_gateway envEmailError ''send-confirmation''
       [(''name'', ''Ann''), (''email'', ''a@b.com''), (''industry'', ''technology'')] =
       Returns (Some (JsError ''Function returned 500'')) \<and>
     sessionLeads (store (handleSubmit validateLeadForm envEmailError annWorld)) =
       [\<lparr>name = ''Ann'', email = ''a@b.com'', industry = ''technology'',
         submitted_at = ''2025-07-10T13:51:08.250Z''\<rparr>] \<and>
     submitted (store (handleSubmit validateLeadForm envEmailError annWorld)) = True \<and>
     last (newEvents annWorld (handleSubmit validateLeadForm envEmailError annWorld)) =
       ConsoleError ''Error sending confirmation email:''
         [Err (JsError ''Function returned 500'')]"
    using commit_despite_notification [where validate = validateLeadForm and w = annWorld
        and e = envEmailError, OF annWorld_valid ins_error ok]
    by (simp add: fixture_defs)
  from annWorld_valid thrown returned show ?thesis
    by blast
qed

text \<open>
  C3. On valid input one submission issues exactly one insert, into \<^verbatim>\<open>leads\<close>, of one
  row with the properties name, email, industry, submitted_at in that order. When the
  insert is accepted it issues exactly one invoke of \<^verbatim>\<open>send-confirmation\<close> with the
  properties name, email, industry. When the invoke succeeds as well, the store gains
  exactly one lead (the form's values, stamped with the second clock reading), the
  submitted flag is true and the three form fields are empty strings.
\<close>

theorem valid_submission:
  assumes "validate (formData w) = []"
  shows "filter isInsertCall (newEvents w (handleSubmit validate e w)) =
           [InsertCall ''leads''
              [[(''name'', name (formData w)), (''email'', email (formData w)),
                (''industry'', industry (formData w)), (''submitted_at'', now e 0)]]] \<and>
         (\<forall>res. insert_gateway e ''leads''
                 [[(''name'', name (formData w)), (''email'', email (formData w)),
                   (''industry'', industry (formData w)), (''submitted_at'', now e 0)]] =
                 Returns res \<and> error res = None \<longrightarrow>
            filter isInvokeCall (newEvents w (handleSubmit validate e w)) =
              [InvokeCall ''send-confirmation''
                 [(''name'', name (formData w)), (''email'', email (formData w)),
                  (''industry'', industry (formData w))]] \<and>
            (invoke_gateway e ''send-confirmation''
               [(''name'', name (formData w)), (''email'', email (formData w)),
                (''industry'', industry (formData w))] = Returns None \<longrightarrow>
             sessionLeads (store (handleSubmit validate e w)) =
               sessionLeads (store w) @
                 [\<lparr>name = name (formData w), email = email (formData w),
                   industry = industry (formData w), submitted_at = now e 1\<rparr>] \<and>
             submitted (store (handleSubmit validate e w)) = True \<and>
             formData (handleSubmit validate e w) = \<lparr>name = '''', email = '''', industry = ''''\<rparr>))"
proof -
  let ?r = "insert_gateway e ''leads'' [insertRow (formData w) (now e 0)]"
  have first: "filter isInsertCall (newEvents w (handleSubmit validate e w)) =
      [InsertCall ''leads'' [insertRow (formData w) (now e 0)]]"
  proof (cases ?r)
    case (Throws ex)
    show ?thesis
      by (simp add: handleSubmit_insert_throws [where validate = validate, OF assms Throws]
          newEvents_def isInsertCall_def)
  next
    case (Returns res)
    show ?thesis
    proof (cases "error res")
      case None
      show ?thesis
        by (simp add: handleSubmit_saved [where validate = validate, OF assms Returns None]
            newEvents_def isInsertCall_def split: outcome.split option.split)
    next
      case (Some dbError)
      show ?thesis
        by (simp add: handleSubmit_insert_error [where validate = validate, OF assms Returns Some]
            newEvents_def isInsertCall_def)
    qed
  qed
  have rest: "filter isInvokeCall (newEvents w (handleSubmit validate e w)) =
        [InvokeCall ''send-confirmation'' (invokeBody (formData w))] \<and>
      sessionLeads (store (handleSubmit validate e w)) =
        sessionLeads (store w) @
          [\<lparr>name = name (formData w), email = email (formData w),
            industry = industry (formData w), submitted_at = now e 1\<rparr>] \<and>
      submitted (store (handleSubmit validate e w)) = True \<and>
      formData (handleSubmit validate e w) = emptyForm"
    if "?r = Returns res" and "error res = None" for res
    by (simp add: handleSubmit_saved [where validate = validate, OF assms that]
        newEvents_def isInvokeCall_def split: outcome.split option.split)
  show ?thesis
    using first rest by (simp add: insertRow_def invokeBody_def emptyForm_def)
qed

text \<open>Ann's submission with both gateways succeeding.\<close>

theorem valid_submission_witness:
  "validateLeadForm (formData annWorld) = [] \<and>
   filter isInsertCall (newEvents annWorld (handleSubmit validateLeadForm envOk annWorld)) =
     [InsertCall ''leads''
        [[(''name'', ''Ann''), (''email'', ''a@b.com''), (''industry'', ''technology''),
          (''submitted_at'', ''2025-07-10T13:51:08.000Z'')]]] \<and>
   filter isInvokeCall (newEvents annWorld (handleSubmit validateLeadForm envOk annWorld)) =
     [InvokeCall ''send-confirmation''
        [(''name'', ''Ann''), (''email'', ''a@b.com''), (''industry'', ''technology'')]] \<and>
   sessionLeads (store (handleSubmit validateLeadForm envOk annWorld)) =
     [\<lparr>name = ''Ann'', email = ''a@b.com'', industry = ''technology'',
       submitted_at = ''2025-07-10T13:51:08.250Z''\<rparr>] \<and>
   submitted (store (handleSubmit validateLeadForm envOk annWorld)) = True \<and>
   formData (handleSubmit validateLeadForm envOk annWorld) =
     \<lparr>name = '''', email = '''', industry = ''''\<rparr>"
  using valid_submission [where validate = validateLeadForm and w = annWorld and e = envOk,
      OF annWorld_valid] annWorld_valid
  by (simp add: fixture_defs)

text \<open>
  C4. A submission reaches a gateway if and only if the validator's list is empty. When
  the list is not empty the handler only stores it (and prevents the default action of
  the event): no insert, no invoke, no other change of state; each field then shows the
  message of its first error.
\<close>

theorem validation_gate:
  "(list_ex isGatewayCall (newEvents w (handleSubmit validate e w)) \<longleftrightarrow>
      validate (formData w) = []) \<and>
   (validate (formData w) \<noteq> [] \<longrightarrow>
      handleSubmit validate e w =
        w\<lparr>validationErrors := validate (formData w), trace := trace w @ [PreventDefault]\<rparr>) \<and>
   (validate (formData w) \<noteq> [] \<longrightarrow>
      getFieldError (handleSubmit validate e w) f =
        map_option message (find (\<lambda>err. field err = f) (validate (formData w))))"
proof (cases "validate (formData w) = []")
  case False
  show ?thesis
    using False
    by (simp add: handleSubmit_invalid [where validate = validate, OF False] newEvents_def isGatewayCall_def
        isInsertCall_def isInvokeCall_def getFieldError_def)
next
  case True
  let ?r = "insert_gateway e ''leads'' [insertRow (formData w) (now e 0)]"
  have "InsertCall ''leads'' [insertRow (formData w) (now e 0)]
      \<in> set (newEvents w (handleSubmit validate e w))"
  proof (cases ?r)
    case (Throws ex)
    show ?thesis
      by (simp add: handleSubmit_insert_throws [where validate = validate, OF True Throws]
          newEvents_def)
  next
    case (Returns res)
    show ?thesis
    proof (cases "error res")
      case None
      show ?thesis
        by (simp add: handleSubmit_saved [where validate = validate, OF True Returns None]
            newEvents_def)
    next
      case (Some dbError)
      show ?thesis
        by (simp add: handleSubmit_insert_error [where validate = validate, OF True Returns Some]
            newEvents_def)
    qed
  qed
  then have "list_ex isGatewayCall (newEvents w (handleSubmit validate e w))"
    unfolding list_ex_iff by (rule bexI [rotated]) (simp add: isGatewayCall_def isInsertCall_def)
  with True show ?thesis by simp
qed

text \<open>The empty form is rejected without a gateway call; Ann's form reaches the gateway.\<close>

theorem validation_gate_witness:
  "validateLeadForm (formData initialWorld) \<noteq> [] \<and>
   \<not> list_ex isGatewayCall
       (newEvents initialWorld (handleSubmit validateLeadForm envOk initialWorld)) \<and>
   handleSubmit validateLeadForm envOk initialWorld =
     initialWorld
       \<lparr>validationErrors :=
          [\<lparr>field = ''name'', message = ''Name is required''\<rparr>,
           \<lparr>field = ''email'', message = ''Email is required''\<rparr>,
           \<lparr>field = ''industry'', message = ''Please select your industry''\<rparr>],
        trace := [PreventDefault]\<rparr> \<and>
   getFieldError (handleSubmit validateLeadForm envOk initialWorld) ''industry'' =
     Some ''Please select your industry'' \<and>
   validateLeadForm (formData annWorld) = [] \<and>
   list_ex isGatewayCall (newEvents annWorld (handleSubmit validateLeadForm envOk annWorld))"
proof -
  have invalid: "validateLeadForm (formData initialWorld) =
      [\<lparr>field = ''name'', message = ''Name is required''\<rparr>,
       \<lparr>field = ''email'', message = ''Email is required''\<rparr>,
       \<lparr>field = ''industry'', message = ''Please select your industry''\<rparr>]"
    by (simp add: initialWorld_def emptyForm_def validateLeadForm_def trim_def)
  note rejected = validation_gate [where validate = validateLeadForm and w = initialWorld
      and e = envOk and f = "''industry''"]
  note accepted = validation_gate [where validate = validateLeadForm and w = annWorld
      and e = envOk]
  from rejected [THEN conjunct1] invalid have no_call: "\<not> list_ex isGatewayCall
      (newEvents initialWorld (handleSubmit validateLeadForm envOk initialWorld))"
    by simp
  from rejected [THEN conjunct2, THEN conjunct1] invalid have state: "handleSubmit validateLeadForm envOk initialWorld =
      initialWorld
        \<lparr>validationErrors :=
           [\<lparr>field = ''name'', message = ''Name is required''\<rparr>,
            \<lparr>field = ''email'', message = ''Email is required''\<rparr>,
            \<lparr>field = ''industry'', message = ''Please select your industry''\<rparr>],
         trace := [PreventDefault]\<rparr>"
    by (simp add: initialWorld_def)
  from rejected [THEN conjunct2, THEN conjunct2] invalid have shown:
    "getFieldError (handleSubmit validateLeadForm envOk initialWorld) ''industry'' =
      Some ''Please select your industry''"
    by simp
  from accepted [THEN conjunct1] annWorld_valid have call: "list_ex isGatewayCall
      (newEvents annWorld (handleSubmit validateLeadForm envOk annWorld))"
    by simp
  from invalid have nonempty: "validateLeadForm (formData initialWorld) \<noteq> []"
    by simp
  from nonempty no_call state shown annWorld_valid call show ?thesis
    by blast
qed

text \<open>
  C5. One submission issues at most one insert. If it issues an invoke, then before it
  the insert was issued and had settled with a response carrying no error: the events
  before the invoke are exactly the insert call, its settlement and the success log.
\<close>

theorem persist_then_notify:
  "length (filter isInsertCall (newEvents w (handleSubmit validate e w))) \<le> 1 \<and>
   (\<forall>pre fn body post.
      newEvents w (handleSubmit validate e w) = pre @ InvokeCall fn body # post \<longrightarrow>
      (\<exists>rows res.
         pre = [PreventDefault, InsertCall ''leads'' rows, InsertSettled (Returns res),
                ConsoleLog ''Lead saved to database successfully:'' [Rows (data res)]] \<and>
         insert_gateway e ''leads'' rows = Returns res \<and> error res = None))"
proof -
  have count: "length (filter isInsertCall (newEvents w (handleSubmit validate e w))) \<le> 1"
    by (simp add: handleSubmit_newEvents isInsertCall_def split: outcome.split option.split)
  have order: "\<exists>rows res.
      pre = [PreventDefault, InsertCall ''leads'' rows, InsertSettled (Returns res),
             ConsoleLog ''Lead saved to database successfully:'' [Rows (data res)]] \<and>
      insert_gateway e ''leads'' rows = Returns res \<and> error res = None"
    if "newEvents w (handleSubmit validate e w) = pre @ InvokeCall fn body # post"
    for pre fn body post
    using that
    by (auto simp add: handleSubmit_newEvents append_eq_Cons_conv Cons_eq_append_conv
        split: if_splits outcome.splits option.splits)
  show ?thesis using count order by blast
qed

text \<open>Ann's submission: the events before the invoke, and the insert they record.\<close>

theorem persist_then_notify_witness:
  "newEvents annWorld (handleSubmit validateLeadForm envOk annWorld) =
     [PreventDefault,
      InsertCall ''leads''
        [[(''name'', ''Ann''), (''email'', ''a@b.com''), (''industry'', ''technology''),
          (''submitted_at'', ''2025-07-10T13:51:08.000Z'')]],
      InsertSettled
        (Returns \<lparr>data = Some [[(''name'', ''Ann''), (''email'', ''a@b.com''),
                               (''industry'', ''technology''),
                               (''submitted_at'', ''2025-07-10T13:51:08.000Z'')]],
                 error = None\<rparr>),
      ConsoleLog ''Lead saved to database successfully:''
        [Rows (Some [[(''name'', ''Ann''), (''email'', ''a@b.com''),
                      (''industry'', ''technology''),
                      (''submitted_at'', ''2025-07-10T13:51:08.000Z'')]])]] @
     InvokeCall ''send-confirmation''
       [(''name'', ''Ann''), (''email'', ''a@b.com''), (''industry'', ''technology'')] #
     [InvokeSettled (Returns None), ConsoleLog ''Confirmation email sent successfully'' []] \<and>
   (\<exists>res. insert_gateway envOk ''leads''
            [[(''name'', ''Ann''), (''email'', ''a@b.com''), (''industry'', ''technology''),
              (''submitted_at'', ''2025-07-10T13:51:08.000Z'')]] = Returns res \<and>
          error res = None) \<and>
   length (filter isInsertCall
     (newEvents annWorld (handleSubmit validateLeadForm envOk annWorld))) \<le> 1"
proof -
  let ?row = "[(''name'', ''Ann''), (''email'', ''a@b.com''), (''industry'', ''technology''),
      (''submitted_at'', ''2025-07-10T13:51:08.000Z'')]"
  let ?pre = "[PreventDefault, InsertCall ''leads'' [?row],
      InsertSettled (Returns \<lparr>data = Some [?row], error = None\<rparr>),
      ConsoleLog ''Lead saved to database successfully:'' [Rows (Some [?row])]]"
  let ?post = "[InvokeSettled (Returns None),
      ConsoleLog ''Confirmation email sent successfully'' []]"
  have split: "newEvents annWorld (handleSubmit validateLeadForm envOk annWorld) =
      ?pre @ InvokeCall ''send-confirmation''
        [(''name'', ''Ann''), (''email'', ''a@b.com''), (''industry'', ''technology'')] # ?post"
    using annWorld_valid
    by (simp add: handleSubmit_newEvents insertRow_def invokeBody_def fixture_defs)
  note inst = persist_then_notify [where validate = validateLeadForm and w = annWorld
      and e = envOk]
  from inst have count: "length (filter isInsertCall
      (newEvents annWorld (handleSubmit validateLeadForm envOk annWorld))) \<le> 1"
    by (rule conjunct1)
  from inst split obtain rows res where
    "?pre = [PreventDefault, InsertCall ''leads'' rows, InsertSettled (Returns res),
       ConsoleLog ''Lead saved to database successfully:'' [Rows (data res)]]"
    "insert_gateway envOk ''leads'' rows = Returns res" "error res = None"
    by blast
  then have "\<exists>res. insert_gateway envOk ''leads'' [?row] = Returns res \<and> error res = None"
    by auto
  with split count show ?thesis by simp
qed

text \<open>
  C6, as amended. Every lead held in the store has passed validation and corresponds to
  a row persisted for that same submission. A submission whose form passes the validator
  and whose insert is accepted appends exactly one lead, the form's name, email and
  industry stamped with the second clock reading, and the one accepted row among its own
  events is the form's name, email and industry stamped with the first clock reading. A
  submission changes the leads of the store in no other case, and a mount or an input
  change never does. So after any session the leads of the store and the accepted rows
  of the trace correspond one to one, in order, equal in name, email and industry, and
  every lead passes the validator. (The \<^verbatim>\<open>submitted_at\<close> of a lead is the later reading
  and need not be the one that was sent.)
\<close>

theorem store_leads_persisted:
  "(validate (formData w) = [] \<and>
    insert_gateway e ''leads''
      [[(''name'', name (formData w)), (''email'', email (formData w)),
        (''industry'', industry (formData w)), (''submitted_at'', now e 0)]] = Returns res \<and>
    error res = None \<longrightarrow>
      sessionLeads (store (handleSubmit validate e w)) =
        sessionLeads (store w) @
          [\<lparr>name = name (formData w), email = email (formData w),
            industry = industry (formData w), submitted_at = now e 1\<rparr>] \<and>
      acceptedRows (newEvents w (handleSubmit validate e w)) =
        [[(''name'', name (formData w)), (''email'', email (formData w)),
          (''industry'', industry (formData w)), (''submitted_at'', now e 0)]]) \<and>
   (sessionLeads (store (handleSubmit validate e w)) \<noteq> sessionLeads (store w) \<longrightarrow>
      validate (formData w) = [] \<and>
      (\<exists>res'. insert_gateway e ''leads''
          [[(''name'', name (formData w)), (''email'', email (formData w)),
            (''industry'', industry (formData w)), (''submitted_at'', now e 0)]] = Returns res' \<and>
        error res' = None)) \<and>
   sessionLeads (store (mount w)) = sessionLeads (store w) \<and>
   sessionLeads (store (handleInputChange f v w)) = sessionLeads (store w) \<and>
   list_all2 contactRow
     (sessionLeads (store (run validate acts initialWorld)))
     (acceptedRows (trace (run validate acts initialWorld))) \<and>
   list_all (\<lambda>l. validate \<lparr>name = name l, email = email l, industry = industry l\<rparr> = [])
     (sessionLeads (store (run validate acts initialWorld)))"
proof -
  have step_yes: "sessionLeads (store (handleSubmit validate e w)) =
        sessionLeads (store w) @
          [\<lparr>name = name (formData w), email = email (formData w),
            industry = industry (formData w), submitted_at = now e 1\<rparr>] \<and>
      acceptedRows (newEvents w (handleSubmit validate e w)) =
        [insertRow (formData w) (now e 0)]"
    if "validate (formData w) = []"
      and "insert_gateway e ''leads'' [insertRow (formData w) (now e 0)] = Returns res"
      and "error res = None"
    using that by (simp add: sessionLeads_handleSubmit acceptedRows_newEvents)
  have step_no: "validate (formData w) = [] \<and>
      (\<exists>res'. insert_gateway e ''leads'' [insertRow (formData w) (now e 0)] = Returns res' \<and>
        error res' = None)"
    if "sessionLeads (store (handleSubmit validate e w)) \<noteq> sessionLeads (store w)"
    using that
    by (auto simp add: sessionLeads_handleSubmit split: if_splits outcome.splits option.splits)
  have others: "sessionLeads (store (mount w)) = sessionLeads (store w) \<and>
      sessionLeads (store (handleInputChange f v w)) = sessionLeads (store w)"
    by (simp add: mount_def resetOnMount_def setSubmitted_def handleInputChange_def
        setField_def Let_def)
  have session: "paired validate (run validate acts initialWorld)"
    by (rule paired_run [OF paired_initialWorld])
  show ?thesis
    using step_yes step_no others session
    by (simp add: insertRow_def paired_def)
qed

text \<open>Ann's submission, and the session that leads to it.\<close>

theorem store_leads_persisted_witness:
  "validateLeadForm (formData annWorld) = [] \<and>
   insert_gateway envOk ''leads''
     [[(''name'', ''Ann''), (''email'', ''a@b.com''), (''industry'', ''technology''),
       (''submitted_at'', ''2025-07-10T13:51:08.000Z'')]] =
     Returns \<lparr>data = Some [[(''name'', ''Ann''), (''email'', ''a@b.com''),
                            (''industry'', ''technology''),
                            (''submitted_at'', ''2025-07-10T13:51:08.000Z'')]],
              error = None\<rparr> \<and>
   sessionLeads (store (handleSubmit validateLeadForm envOk annWorld)) =
     [\<lparr>name = ''Ann'', email = ''a@b.com'', industry = ''technology'',
       submitted_at = ''2025-07-10T13:51:08.250Z''\<rparr>] \<and>
   acceptedRows (newEvents annWorld (handleSubmit validateLeadForm envOk annWorld)) =
     [[(''name'', ''Ann''), (''email'', ''a@b.com''), (''industry'', ''technology''),
       (''submitted_at'', ''2025-07-10T13:51:08.000Z'')]] \<and>
   sessionLeads (store (handleSubmit validateLeadForm envOk annWorld)) \<noteq>
     sessionLeads (store annWorld) \<and>
   sessionLeads (store (run validateLeadForm annSession initialWorld)) =
     [\<lparr>name = ''Ann'', email = ''a@b.com'', industry = ''technology'',
       submitted_at = ''2025-07-10T13:51:08.250Z''\<rparr>] \<and>
   acceptedRows (trace (run validateLeadForm annSession initialWorld)) =
     [[(''name'', ''Ann''), (''email'', ''a@b.com''), (''industry'', ''technology''),
       (''submitted_at'', ''2025-07-10T13:51:08.000Z'')]] \<and>
   list_all2 contactRow
     (sessionLeads (store (run validateLeadForm annSession initialWorld)))
     (acceptedRows (trace (run validateLeadForm annSession initialWorld)))"
proof -
  let ?res = "\<lparr>data = Some [[(''name'', name (formData annWorld)),
      (''email'', email (formData annWorld)), (''industry'', industry (formData annWorld)),
      (''submitted_at'', now envOk 0)]], error = None\<rparr>"
  have accepted: "insert_gateway envOk ''leads''
      [[(''name'', name (formData annWorld)), (''email'', email (formData annWorld)),
        (''industry'', industry (formData annWorld)), (''submitted_at'', now envOk 0)]] =
      Returns ?res"
    by (simp add: envOk_def)
  have ok: "error ?res = None"
    by simp
  note inst = store_leads_persisted [where validate = validateLeadForm and w = annWorld
      and e = envOk and res = ?res and acts = annSession]
  from inst [THEN conjunct1] annWorld_valid accepted ok
  have step: "sessionLeads (store (handleSubmit validateLeadForm envOk annWorld)) =
        sessionLeads (store annWorld) @
          [\<lparr>name = name (formData annWorld), email = email (formData annWorld),
            industry = industry (formData annWorld), submitted_at = now envOk 1\<rparr>] \<and>
      acceptedRows (newEvents annWorld (handleSubmit validateLeadForm envOk annWorld)) =
        [[(''name'', name (formData annWorld)), (''email'', email (formData annWorld)),
          (''industry'', industry (formData annWorld)), (''submitted_at'', now envOk 0)]]"
    by blast
  from inst have session: "list_all2 contactRow
      (sessionLeads (store (run validateLeadForm annSession initialWorld)))
      (acceptedRows (trace (run validateLeadForm annSession initialWorld)))"
    by blast
  have held: "sessionLeads (store (run validateLeadForm annSession initialWorld)) =
      [\<lparr>name = ''Ann'', email = ''a@b.com'', industry = ''technology'',
        submitted_at = ''2025-07-10T13:51:08.250Z''\<rparr>] \<and>
    acceptedRows (trace (run validateLeadForm annSession initialWorld)) =
      [[(''name'', ''Ann''), (''email'', ''a@b.com''), (''industry'', ''technology''),
        (''submitted_at'', ''2025-07-10T13:51:08.000Z'')]]"
    by (simp add: annSession_run)
  from step have step': "sessionLeads (store (handleSubmit validateLeadForm envOk annWorld)) =
      [\<lparr>name = ''Ann'', email = ''a@b.com'', industry = ''technology'',
        submitted_at = ''2025-07-10T13:51:08.250Z''\<rparr>] \<and>
    acceptedRows (newEvents annWorld (handleSubmit validateLeadForm envOk annWorld)) =
      [[(''name'', ''Ann''), (''email'', ''a@b.com''), (''industry'', ''technology''),
        (''submitted_at'', ''2025-07-10T13:51:08.000Z'')]] \<and>
    sessionLeads (store (handleSubmit validateLeadForm envOk annWorld)) \<noteq>
      sessionLeads (store annWorld)"
    by (simp add: fixture_defs)
  have accepted': "insert_gateway envOk ''leads''
     [[(''name'', ''Ann''), (''email'', ''a@b.com''), (''industry'', ''technology''),
       (''submitted_at'', ''2025-07-10T13:51:08.000Z'')]] =
     Returns \<lparr>data = Some [[(''name'', ''Ann''), (''email'', ''a@b.com''),
                            (''industry'', ''technology''),
                            (''submitted_at'', ''2025-07-10T13:51:08.000Z'')]],
              error = None\<rparr>"
    by (simp add: envOk_def)
  from annWorld_valid accepted' step' held session show ?thesis
    by blast
qed

text \<open>
  C6 as stated fails on the time stamp. In Ann's session the clock moves between the two
  readings: the lead held in the store carries the second reading, and no insert of a row
  equal to that lead in all four fields was ever accepted; the accepted insert carried
  the first reading.
\<close>

theorem store_lead_timestamp_counterexample:
  "sessionLeads (store (run validateLeadForm annSession initialWorld)) =
     [\<lparr>name = ''Ann'', email = ''a@b.com'', industry = ''technology'',
       submitted_at = ''2025-07-10T13:51:08.250Z''\<rparr>] \<and>
   leadRow \<lparr>name = ''Ann'', email = ''a@b.com'', industry = ''technology'',
            submitted_at = ''2025-07-10T13:51:08.250Z''\<rparr> =
     [(''name'', ''Ann''), (''email'', ''a@b.com''), (''industry'', ''technology''),
      (''submitted_at'', ''2025-07-10T13:51:08.250Z'')] \<and>
   \<not> acceptedInsert
       (leadRow \<lparr>name = ''Ann'', email = ''a@b.com'', industry = ''technology'',
                 submitted_at = ''2025-07-10T13:51:08.250Z''\<rparr>)
       (trace (run validateLeadForm annSession initialWorld)) \<and>
   acceptedInsert
     [(''name'', ''Ann''), (''email'', ''a@b.com''), (''industry'', ''technology''),
      (''submitted_at'', ''2025-07-10T13:51:08.000Z'')]
     (trace (run validateLeadForm annSession initialWorld))"
  by (simp add: annSession_run leadRow_def)




text \<open>
  C8. The reset on mount is idempotent: run once or any number of times more, it leaves
  the store as one run does, with the submitted flag false, and it never changes the
  leads of the store. Every mount of the component applies it to the store, whatever the
  rest of the state is.
\<close>

theorem resetOnMount_idempotent:
  "(resetOnMount ^^ Suc n) s = resetOnMount s \<and>
   submitted ((resetOnMount ^^ Suc n) s) = False \<and>
   sessionLeads ((resetOnMount ^^ n) s) = sessionLeads s \<and>
   store (mount w) = resetOnMount (store w)"
proof -
  have idem: "(resetOnMount ^^ Suc k) s = resetOnMount s" for k
    by (induction k) (simp_all add: resetOnMount_def setSubmitted_def)
  have leads: "sessionLeads ((resetOnMount ^^ k) s) = sessionLeads s" for k
    by (induction k) (simp_all add: resetOnMount_def setSubmitted_def)
  show ?thesis
    using idem [of n] leads [of n]
    by (simp add: resetOnMount_def setSubmitted_def mount_def)
qed

text \<open>
  C9. A change of a field that has a validation error removes the errors of that field
  and no other: the errors of every other field stay, in order; the other form fields,
  the store and the trace are unchanged. Every submission replaces the error list by the
  validator's result.
\<close>

theorem input_change_clears_field_errors:
  assumes "list_ex (\<lambda>err. field err = f) (validationErrors w)"
  shows "validationErrors (handleInputChange f v w) =
           filter (\<lambda>err. field err \<noteq> f) (validationErrors w) \<and>
         filter (\<lambda>err. field err = f) (validationErrors (handleInputChange f v w)) = [] \<and>
         (\<forall>g. g \<noteq> f \<longrightarrow>
            filter (\<lambda>err. field err = g) (validationErrors (handleInputChange f v w)) =
            filter (\<lambda>err. field err = g) (validationErrors w)) \<and>
         (f \<noteq> ''name'' \<longrightarrow> name (formData (handleInputChange f v w)) = name (formData w)) \<and>
         (f \<noteq> ''email'' \<longrightarrow> email (formData (handleInputChange f v w)) = email (formData w)) \<and>
         (f \<noteq> ''industry'' \<longrightarrow>
            industry (formData (handleInputChange f v w)) = industry (formData w)) \<and>
         (\<forall>g. g \<noteq> f \<longrightarrow>
            map_of (formExtra (handleInputChange f v w)) g = map_of (formExtra w) g) \<and>
         store (handleInputChange f v w) = store w \<and>
         trace (handleInputChange f v w) = trace w \<and>
         validationErrors (handleSubmit validate e w) = validate (formData w)"
proof -
  have errs: "validationErrors (handleInputChange f v w) =
      filter (\<lambda>err. field err \<noteq> f) (validationErrors w)"
    using assms by (simp add: handleInputChange_def setField_def Let_def)
  have gone: "filter (\<lambda>err. field err = f) (filter (\<lambda>err. field err \<noteq> f) xs) = []"
    for xs :: "validation_error list"
    by (induction xs) simp_all
  have kept: "filter (\<lambda>err. field err = g) (filter (\<lambda>err. field err \<noteq> f) xs) =
      filter (\<lambda>err. field err = g) xs" if "g \<noteq> f" for g and xs :: "validation_error list"
    using that by (induction xs) auto
  have form: "(f \<noteq> ''name'' \<longrightarrow> name (formData (handleInputChange f v w)) = name (formData w)) \<and>
      (f \<noteq> ''email'' \<longrightarrow> email (formData (handleInputChange f v w)) = email (formData w)) \<and>
      (f \<noteq> ''industry'' \<longrightarrow>
         industry (formData (handleInputChange f v w)) = industry (formData w))"
    by (simp add: handleInputChange_def setField_def Let_def)
  have extra: "map_of (formExtra (handleInputChange f v w)) g = map_of (formExtra w) g"
    if "g \<noteq> f" for g
    using that by (simp add: handleInputChange_def setField_def Let_def update_conv')
  have frame: "store (handleInputChange f v w) = store w \<and>
      trace (handleInputChange f v w) = trace w"
    by (simp add: handleInputChange_def setField_def Let_def)
  show ?thesis
    using errs gone kept form extra frame handleSubmit_validationErrors by simp
qed

text \<open>After the empty form was rejected, typing a name removes the name error only.\<close>

theorem input_change_clears_field_errors_witness:
  "list_ex (\<lambda>err. field err = ''name'')
     (validationErrors (handleSubmit validateLeadForm envOk initialWorld)) \<and>
   validationErrors
     (handleInputChange ''name'' ''Ann'' (handleSubmit validateLeadForm envOk initialWorld)) =
     [\<lparr>field = ''email'', message = ''Email is required''\<rparr>,
      \<lparr>field = ''industry'', message = ''Please select your industry''\<rparr>] \<and>
   email (formData
     (handleInputChange ''name'' ''Ann'' (handleSubmit validateLeadForm envOk initialWorld))) =
     email (formData (handleSubmit validateLeadForm envOk initialWorld)) \<and>
   industry (formData
     (handleInputChange ''name'' ''Ann'' (handleSubmit validateLeadForm envOk initialWorld))) =
     industry (formData (handleSubmit validateLeadForm envOk initialWorld)) \<and>
   store (handleInputChange ''name'' ''Ann'' (handleSubmit validateLeadForm envOk initialWorld)) =
     store (handleSubmit validateLeadForm envOk initialWorld)"
proof -
  have hit: "list_ex (\<lambda>err. field err = ''name'')
      (validationErrors (handleSubmit validateLeadForm envOk initialWorld))"
    by (simp add: rejected_errors)
  show ?thesis
    using input_change_clears_field_errors [where f = "''name''" and v = "''Ann''"
        and w = "handleSubmit validateLeadForm envOk initialWorld", OF hit] hit
    by (simp add: rejected_errors)
qed

text \<open>
  C10. In every state a session reaches, a set submitted flag comes with a non-empty
  store; more generally each session keeps this property if it starts with it. The flag
  goes from false to true only in a step that appends a lead, and a mount clears the
  flag and leaves the leads alone.
\<close>

theorem submitted_implies_lead:
  "(submitted (store (run validate acts initialWorld)) \<longrightarrow>
      sessionLeads (store (run validate acts initialWorld)) \<noteq> []) \<and>
   ((submitted (store w) \<longrightarrow> sessionLeads (store w) \<noteq> []) \<longrightarrow>
    submitted (store (run validate acts w)) \<longrightarrow>
      sessionLeads (store (run validate acts w)) \<noteq> []) \<and>
   (\<not> submitted (store w) \<and> submitted (store (step validate w a)) \<longrightarrow>
      (\<exists>l. sessionLeads (store (step validate w a)) = sessionLeads (store w) @ [l])) \<and>
   submitted (store (mount w)) = False \<and>
   sessionLeads (store (mount w)) = sessionLeads (store w)"
proof -
  have init: "flagHasLead (store initialWorld)"
    by (simp add: flagHasLead_def initialWorld_def initialStore_def)
  have a: "submitted (store (run validate acts initialWorld)) \<longrightarrow>
      sessionLeads (store (run validate acts initialWorld)) \<noteq> []"
    using flagHasLead_run [OF init, of validate acts] by (simp add: flagHasLead_def split: if_splits)
  have b: "(submitted (store w) \<longrightarrow> sessionLeads (store w) \<noteq> []) \<longrightarrow>
      submitted (store (run validate acts w)) \<longrightarrow> sessionLeads (store (run validate acts w)) \<noteq> []"
    using flagHasLead_run [of w validate acts] by (auto simp add: flagHasLead_def split: if_splits)
  have c: "\<not> submitted (store w) \<and> submitted (store (step validate w a)) \<longrightarrow>
      (\<exists>l. sessionLeads (store (step validate w a)) = sessionLeads (store w) @ [l])"
    using flag_rises_with_lead [of w validate a] by blast
  have d: "submitted (store (mount w)) = False \<and>
      sessionLeads (store (mount w)) = sessionLeads (store w)"
    by (simp add: mount_def resetOnMount_def setSubmitted_def)
  show ?thesis using a b c d by blast
qed

text \<open>Ann's session ends with the flag set and one lead held; the flag rose in the submit step.\<close>

theorem submitted_implies_lead_witness:
  "submitted (store (run validateLeadForm annSession initialWorld)) \<and>
   sessionLeads (store (run validateLeadForm annSession initialWorld)) \<noteq> [] \<and>
   \<not> submitted (store annWorld) \<and>
   submitted (store (step validateLeadForm annWorld (Submit envOk))) \<and>
   (\<exists>l. sessionLeads (store (step validateLeadForm annWorld (Submit envOk))) =
          sessionLeads (store annWorld) @ [l])"
proof -
  have flag: "submitted (store (run validateLeadForm annSession initialWorld))"
    by (simp add: annSession_run)
  have before: "\<not> submitted (store annWorld)"
    by (simp add: fixture_defs)
  have ins: "insert_gateway envOk ''leads'' [insertRow (formData annWorld) (now envOk 0)] =
      Returns \<lparr>data = Some [insertRow (formData annWorld) (now envOk 0)], error = None\<rparr>"
    by (simp add: envOk_def)
  have after: "submitted (store (step validateLeadForm annWorld (Submit envOk)))"
    by (simp add: step_def
        handleSubmit_saved [where validate = validateLeadForm, OF annWorld_valid ins])
  note inst = submitted_implies_lead [where validate = validateLeadForm and acts = annSession
      and w = annWorld and a = "Submit envOk"]
  from inst flag have leads:
    "sessionLeads (store (run validateLeadForm annSession initialWorld)) \<noteq> []"
    by blast
  from inst before after have grew:
    "\<exists>l. sessionLeads (store (step validateLeadForm annWorld (Submit envOk))) =
          sessionLeads (store annWorld) @ [l]"
    by blast
  from flag leads before after grew show ?thesis by blast
qed

end
